theory Spec2Isabelle
  imports Main
begin

section \<open>Data model\<close>

text \<open>
  The repository holds the database layer of an emote bot in two files:
  \<^verbatim>\<open>emote_collector/extensions/db.py\<close> and the earlier \<^verbatim>\<open>cogs/db.py\<close>.
  Both define a class \<open>Database\<close> with the same method names. A definition below that
  carries a plain source name embeds the method of \<^verbatim>\<open>emote_collector/extensions/db.py\<close>;
  the prefix \<open>cogs_\<close> marks the method of the same name in \<^verbatim>\<open>cogs/db.py\<close>.

  Identifiers (emotes, users, guilds, messages) are Python integers, hence \<open>int\<close>.
  A timestamp is an \<open>int\<close> on one fixed time scale, and so is a \<open>timedelta\<close>.
\<close>

text \<open>
  One row of the table \<open>emotes\<close> (\<open>emojis\<close> in \<^verbatim>\<open>cogs/db.py\<close>); the columns are the
  \<open>__slots__\<close> of \<open>DatabaseEmote\<close>. The column \<open>id\<close> is called \<open>emote_id\<close> here.
\<close>

record emote =
  name :: string
  emote_id :: int
  author :: int
  animated :: bool
  description :: "string option"
  created :: int
  modified :: "int option"
  preserve :: bool
  guild :: "int option"
  nsfw :: string

text \<open>One row of \<open>user_opt\<close>; both columns are nullable.\<close>

record user_opt_row =
  state :: "bool option"
  blacklist_reason :: "string option"

text \<open>
  The exceptions of the discord library that a call of the external emoji service
  raises: \<open>discord.NotFound\<close>, \<open>discord.Forbidden\<close>, and \<open>discord.HTTPException\<close> for
  every other failure.
\<close>

datatype discord_exception = NotFound | Forbidden | HTTPException

text \<open>
  The exceptions the two files raise or let through. \<open>Discord\<close> wraps an exception of
  the discord library; \<open>DiscordError\<close> is the class \<open>errors.DiscordError\<close> of the bot
  itself. \<open>EmoteExistsError\<close> carries the name of the emote that is in the way.
\<close>

datatype error =
    EmoteNotFoundError string
  | EmoteExistsError string
  | PermissionDeniedError string
  | NoMoreSlotsError
  | UserBlacklisted string
  | DiscordError
  | BadArgument
  | Discord discord_exception
  | AttributeError
  | KeyError
  | TypeError
  | PostgresError

text \<open>
  What the methods do besides changing tables is recorded in a trace: the calls of the
  slot allocator, the calls of the external emoji service, the log lines, and the
  notifications of the decay.
\<close>

datatype event =
    Free_guild_called bool
  | Http_create int string
  | Http_delete "int option" int
  | Http_edit "int option" int string
  | Log_debug string
  | Log_warn string
  | Log_error string error
  | Decay_notified int
  | Message_deleted int

text \<open>
  The database and the trace. \<open>guilds_tbl\<close> is the table \<open>_guilds\<close> of backend guild ids.
  A row of \<open>emote_usage_history\<close> is \<open>(id, time)\<close>. A row of \<open>guild_opt\<close> is its nullable
  \<open>state\<close>.
\<close>

record world =
  emotes :: "emote list"
  emote_usage_history :: "(int \<times> int) list"
  user_opt :: "int \<rightharpoonup> user_opt_row"
  guild_opt :: "int \<rightharpoonup> bool option"
  guilds_tbl :: "int list"
  trace :: "event list"

definition emit :: "event \<Rightarrow> world \<Rightarrow> world" where
  "emit ev w = w\<lparr>trace := trace w @ [ev]\<rparr>"

section \<open>NSFW status\<close>

definition endswith :: "string \<Rightarrow> string \<Rightarrow> bool" where
  "endswith s suffix = (length suffix \<le> length s \<and> drop (length s - length suffix) s = suffix)"

definition is_nsfw :: "emote \<Rightarrow> bool" where
  "is_nsfw e = endswith (nsfw e) ''NSFW''"

text \<open>
  \<open>new_nsfw_status\<close>: the result \<open>Inr None\<close> is Python falling off the end of the function
  and returning \<open>None\<close>.
\<close>

definition new_nsfw_status :: "emote \<Rightarrow> bool \<Rightarrow> error + string option" where
  "new_nsfw_status e by_mod =
     (let desired_status = \<not> is_nsfw e in
      if by_mod then Inr (Some (if desired_status then ''MOD_NSFW'' else ''SFW''))
      else if desired_status then Inr (Some ''SELF_NSFW'')
      else if nsfw e = ''MOD_NSFW'' then Inl BadArgument
      else if nsfw e = ''SELF_NSFW'' then Inr (Some ''SFW'')
      else Inr None)"

text \<open>
  \<open>toggle_emote_nsfw\<close>: \<open>UPDATE emotes SET nsfw = $2 WHERE id = $1 RETURNING *\<close>. The
  column holds one of the three status names, so writing \<open>None\<close> is refused by the
  database; no row for the id makes \<open>DatabaseEmote(None)\<close> fail with a \<open>TypeError\<close>.
\<close>

definition toggle_emote_nsfw :: "emote \<Rightarrow> bool \<Rightarrow> world \<Rightarrow> (error + emote) \<times> world" where
  "toggle_emote_nsfw e by_mod w =
     (case new_nsfw_status e by_mod of
        Inl err \<Rightarrow> (Inl err, w)
      | Inr None \<Rightarrow> (Inl PostgresError, w)
      | Inr (Some new_status) \<Rightarrow>
          (let w' = w\<lparr>emotes := map (\<lambda>r. if emote_id r = emote_id e
                                         then r\<lparr>nsfw := new_status\<rparr> else r) (emotes w)\<rparr>
           in case find (\<lambda>r. emote_id r = emote_id e) (emotes w') of
                None \<Rightarrow> (Inl TypeError, w')
              | Some r \<Rightarrow> (Inr r, w')))"

section \<open>Preferences and blacklist\<close>

definition get_user_blacklist :: "int \<Rightarrow> world \<Rightarrow> string option" where
  "get_user_blacklist user_id w =
     (case user_opt w user_id of None \<Rightarrow> None | Some r \<Rightarrow> blacklist_reason r)"

definition get_user_state :: "int \<Rightarrow> world \<Rightarrow> bool option" where
  "get_user_state user_id w =
     (case user_opt w user_id of None \<Rightarrow> None | Some r \<Rightarrow> state r)"

definition get_guild_state :: "int \<Rightarrow> world \<Rightarrow> bool option" where
  "get_guild_state guild_id w =
     (case guild_opt w guild_id of None \<Rightarrow> None | Some s \<Rightarrow> s)"

text \<open>SQL \<open>COALESCE\<close>: the first argument that is not \<open>NULL\<close>.\<close>

fun coalesce :: "'a option list \<Rightarrow> 'a option" where
  "coalesce [] = None"
| "coalesce (None # xs) = coalesce xs"
| "coalesce (Some x # xs) = Some x"

text \<open>
  \<open>get_state\<close> of \<^verbatim>\<open>emote_collector/extensions/db.py\<close>: one \<open>COALESCE\<close> over the
  blacklist test, the user's state, the guild's state and \<open>true\<close>. The last argument
  is never \<open>NULL\<close>, so \<open>fetchval\<close> returns a boolean.
\<close>

definition get_state :: "int \<Rightarrow> int \<Rightarrow> world \<Rightarrow> bool" where
  "get_state guild_id user_id w =
     (case coalesce
        [ (case get_user_blacklist user_id w of None \<Rightarrow> None | Some _ \<Rightarrow> Some False),
          get_user_state user_id w,
          get_guild_state guild_id w,
          Some True ] of
        Some b \<Rightarrow> b
      | None \<Rightarrow> True)"

text \<open>
  \<open>get_state\<close> of \<^verbatim>\<open>cogs/db.py\<close>: the guild's state, overridden by the user's state;
  the blacklist is not read.
\<close>

definition cogs_get_state :: "int \<Rightarrow> int \<Rightarrow> world \<Rightarrow> bool" where
  "cogs_get_state guild_id user_id w =
     (let state0 = True;
          state1 = (case get_guild_state guild_id w of None \<Rightarrow> state0 | Some g \<Rightarrow> g);
          state2 = (case get_user_state user_id w of None \<Rightarrow> state1 | Some u \<Rightarrow> u)
      in state2)"

section \<open>The surroundings of the database layer\<close>

text \<open>A guild of the client's cache, as \<^verbatim>\<open>cogs/db.py\<close> reads it: its id and, for each
  of its emojis, whether the emoji is animated.\<close>

record cached_guild =
  cg_id :: int
  emojis :: "bool list"

text \<open>
  Everything the methods read from outside the database, given as functions of the
  arguments of the call:
  \<^item> \<open>bot_is_owner\<close>: \<open>bot.is_owner(user)\<close> by user id;
  \<^item> \<open>create_custom_emoji\<close>, \<open>delete_custom_emoji\<close>, \<open>edit_custom_emoji\<close>: the calls of the
    external emoji service, which return (the id of the new emoji; nothing) or raise
    an exception of the discord library; \<^verbatim>\<open>cogs/db.py\<close> reaches the same service
    through the objects of the client's cache;
  \<^item> \<open>on_emote_decay\<close>: what the logger returns for a decayed emote, the id of the
    message it sent or \<open>None\<close>;
  \<^item> \<open>bot_get_emoji\<close>: \<open>bot.get_emoji(id)\<close>, the cached emoji (given by the id of its
    guild) or \<open>None\<close>;
  \<^item> \<open>bot_guilds\<close>: the attribute \<open>self.guilds\<close> of \<^verbatim>\<open>cogs/db.py\<close>;
  \<^item> \<open>decay_cutoff_time\<close>, \<open>decay_cutoff_usage\<close>: \<open>config['decay']['cutoff']['time']\<close> and
    \<open>['usage']\<close>;
  \<^item> \<open>usage_fk_cascade\<close>: whether the schema, which is not part of the sources, declares
    \<open>emote_usage_history.id\<close> as a reference to \<open>emotes\<close> with \<open>ON DELETE CASCADE\<close>.
\<close>

record env =
  bot_is_owner :: "int \<Rightarrow> bool"
  create_custom_emoji :: "int \<Rightarrow> string \<Rightarrow> discord_exception + int"
  delete_custom_emoji :: "int option \<Rightarrow> int \<Rightarrow> discord_exception option"
  edit_custom_emoji :: "int option \<Rightarrow> int \<Rightarrow> string \<Rightarrow> discord_exception option"
  on_emote_decay :: "emote \<Rightarrow> int option"
  bot_get_emoji :: "int \<Rightarrow> int option"
  bot_guilds :: "cached_guild list"
  decay_cutoff_time :: int
  decay_cutoff_usage :: int
  usage_fk_cascade :: bool

section \<open>Lookups and checks\<close>

text \<open>
  \<open>str.lower\<close> and SQL \<open>LOWER\<close> on the letters A to Z; every other character is kept.
  The two are taken to agree, as they do on the ASCII names of emotes.
\<close>

definition lower_char :: "char \<Rightarrow> char" where
  "lower_char c =
     (case map_of (zip ''ABCDEFGHIJKLMNOPQRSTUVWXYZ'' ''abcdefghijklmnopqrstuvwxyz'') c of
        None \<Rightarrow> c
      | Some d \<Rightarrow> d)"

definition lower :: "string \<Rightarrow> string" where
  "lower s = map lower_char s"

text \<open>\<open>SELECT * FROM emotes WHERE LOWER(name) = LOWER($1)\<close>, first row.\<close>

definition fetch_emote_by_name :: "string \<Rightarrow> world \<Rightarrow> emote option" where
  "fetch_emote_by_name n w = find (\<lambda>e. lower (name e) = lower n) (emotes w)"

definition get_emote :: "string \<Rightarrow> world \<Rightarrow> error + emote" where
  "get_emote n w =
     (case fetch_emote_by_name n w of
        Some e \<Rightarrow> Inr e
      | None \<Rightarrow> Inl (EmoteNotFoundError n))"

definition ensure_emote_does_not_exist :: "string \<Rightarrow> world \<Rightarrow> error + unit" where
  "ensure_emote_does_not_exist n w =
     (case get_emote n w of
        Inl (EmoteNotFoundError _) \<Rightarrow> Inr ()
      | Inl err \<Rightarrow> Inl err
      | Inr e \<Rightarrow> Inl (EmoteExistsError (name e)))"

text \<open>
  \<open>is_owner\<close>: a \<open>DatabaseEmote\<close> object is always true in a condition, so the branch
  \<open>if not emote\<close> is never taken and is left out.
\<close>

definition is_owner :: "env \<Rightarrow> emote \<Rightarrow> int option \<Rightarrow> bool" where
  "is_owner env e user_id =
     (case user_id of
        None \<Rightarrow> True
      | Some u \<Rightarrow> bot_is_owner env u \<or> author e = u)"

definition owner_check :: "env \<Rightarrow> emote \<Rightarrow> int option \<Rightarrow> error + unit" where
  "owner_check env e user_id =
     (if \<not> is_owner env e user_id then Inl (PermissionDeniedError (name e)) else Inr ())"

text \<open>
  In \<^verbatim>\<open>cogs/db.py\<close> \<open>get_emote\<close> wraps the row or \<open>None\<close> in a dictionary, which is
  empty, hence false in a condition, when there is no row: an \<open>option\<close>.
\<close>

definition cogs_get_emote :: "string \<Rightarrow> world \<Rightarrow> emote option" where
  "cogs_get_emote n w = fetch_emote_by_name n w"

definition cogs_ensure_emote_does_not_exist :: "string \<Rightarrow> world \<Rightarrow> error + unit" where
  "cogs_ensure_emote_does_not_exist n w =
     (case cogs_get_emote n w of
        Some e \<Rightarrow> Inl (EmoteExistsError (name e))
      | None \<Rightarrow> Inr ())"

definition cogs_is_owner :: "env \<Rightarrow> string \<Rightarrow> int \<Rightarrow> world \<Rightarrow> error + bool" where
  "cogs_is_owner env n user_id w =
     (case cogs_get_emote n w of
        None \<Rightarrow> Inl (EmoteNotFoundError n)
      | Some e \<Rightarrow> Inr (bot_is_owner env user_id \<or> author e = user_id))"

definition cogs_owner_check :: "env \<Rightarrow> string \<Rightarrow> int \<Rightarrow> world \<Rightarrow> error + unit" where
  "cogs_owner_check env n user_id w =
     (case cogs_is_owner env n user_id w of
        Inl err \<Rightarrow> Inl err
      | Inr ok \<Rightarrow> if \<not> ok then Inl (PermissionDeniedError n) else Inr ())"

section \<open>Slot allocation\<close>

text \<open>The number of emotes of one kind that the table \<open>emotes\<close> places in a guild.\<close>

definition usage_count :: "bool \<Rightarrow> int \<Rightarrow> world \<Rightarrow> nat" where
  "usage_count anim g w =
     length (filter (\<lambda>e. guild e = Some g \<and> animated e = anim) (emotes w))"

record guild_row =
  guild_id :: int
  static_usage :: nat
  animated_usage :: nat

text \<open>
  Modelled from the spec: the view \<open>guilds\<close>, whose declaration is in the schema and not
  in the sources. The spec: the occupancy of a slot \<open>is computed from Resource rows
  grouped by slot and kind\<close>, for each eligible slot.
\<close>

definition guilds :: "world \<Rightarrow> guild_row list" where
  "guilds w =
     map (\<lambda>g. \<lparr>guild_id = g,
               static_usage = usage_count False g w,
               animated_usage = usage_count True g w\<rparr>) (guilds_tbl w)"

text \<open>
  A random draw is a parameter \<open>rnd\<close>. \<open>ORDER BY random() LIMIT 1\<close> returns one of the
  rows that pass the \<open>WHERE\<close> clause, \<open>random.choice\<close> one element of its list: the one at
  position \<open>rnd mod n\<close> of the \<open>n\<close> candidates.
\<close>

definition random_pick :: "nat \<Rightarrow> 'a list \<Rightarrow> 'a option" where
  "random_pick rnd xs = (if xs = [] then None else Some (xs ! (rnd mod length xs)))"

definition free_guild :: "nat \<Rightarrow> bool \<Rightarrow> world \<Rightarrow> (error + int) \<times> world" where
  "free_guild rnd anim w =
     (let w1 = emit (Free_guild_called anim) w;
          rows = filter (\<lambda>r. (if anim then animated_usage r else static_usage r) < 50)
                   (guilds w)
      in case random_pick rnd (map guild_id rows) of
           None \<Rightarrow> (Inl NoMoreSlotsError, w1)
         | Some g \<Rightarrow> (Inr g, w1))"

text \<open>\<open>sum(animated == emote.animated for emote in guild.emojis)\<close>\<close>

definition kind_count :: "bool \<Rightarrow> cached_guild \<Rightarrow> nat" where
  "kind_count anim g = length (filter (\<lambda>a. anim = a) (emojis g))"

definition cogs_free_guild ::
  "env \<Rightarrow> nat \<Rightarrow> bool \<Rightarrow> world \<Rightarrow> (error + cached_guild) \<times> world" where
  "cogs_free_guild env rnd anim w =
     (let w1 = emit (Free_guild_called anim) w;
          free_guilds = filter (\<lambda>g. kind_count anim g < 50) (bot_guilds env)
      in case random_pick rnd free_guilds of
           None \<Rightarrow> (Inl NoMoreSlotsError, w1)
         | Some g \<Rightarrow> (Inr g, w1))"

section \<open>Statements on the table of emotes\<close>

text \<open>
  \<open>INSERT INTO emotes (name, id, author, animated, guild)\<close>: the other columns take
  their defaults, \<open>created\<close> the time of the statement. \<^verbatim>\<open>cogs/db.py\<close> inserts no guild.
\<close>

definition new_row :: "int \<Rightarrow> string \<Rightarrow> int \<Rightarrow> int \<Rightarrow> bool \<Rightarrow> int option \<Rightarrow> emote" where
  "new_row now n new_id author_id anim g =
     \<lparr>name = n, emote_id = new_id, author = author_id, animated = anim,
      description = None, created = now, modified = None, preserve = False,
      guild = g, nsfw = ''SFW''\<rparr>"

definition insert_emote :: "emote \<Rightarrow> world \<Rightarrow> world" where
  "insert_emote row w = w\<lparr>emotes := emotes w @ [row]\<rparr>"

text \<open>\<open>DELETE FROM emote_usage_history WHERE id = $1\<close>\<close>

definition delete_usage :: "int \<Rightarrow> world \<Rightarrow> world" where
  "delete_usage eid w =
     w\<lparr>emote_usage_history := filter (\<lambda>u. fst u \<noteq> eid) (emote_usage_history w)\<rparr>"

text \<open>
  \<open>DELETE FROM emotes WHERE id = $1\<close>. When the schema declares the cascade, the rows of
  \<open>emote_usage_history\<close> that refer to a deleted row go with it.
\<close>

definition delete_emote_row :: "env \<Rightarrow> int \<Rightarrow> world \<Rightarrow> world" where
  "delete_emote_row env eid w =
     (let w1 = w\<lparr>emotes := filter (\<lambda>e. emote_id e \<noteq> eid) (emotes w)\<rparr>
      in if usage_fk_cascade env \<and> (\<exists>e \<in> set (emotes w). emote_id e = eid)
         then delete_usage eid w1 else w1)"

text \<open>\<open>UPDATE emotes SET name = $2 WHERE id = $1\<close>\<close>

definition update_name :: "int \<Rightarrow> string \<Rightarrow> world \<Rightarrow> world" where
  "update_name eid new_name w =
     w\<lparr>emotes := map (\<lambda>r. if emote_id r = eid then r\<lparr>name := new_name\<rparr> else r) (emotes w)\<rparr>"

section \<open>Actions of \<^verbatim>\<open>emote_collector/extensions/db.py\<close>\<close>

text \<open>
  \<open>create_emote\<close>. The image is handed to the external call unchanged and is left out.
  The method does not read \<open>user_opt\<close>.
\<close>

definition create_emote ::
  "env \<Rightarrow> nat \<Rightarrow> int \<Rightarrow> string \<Rightarrow> int \<Rightarrow> bool \<Rightarrow> world \<Rightarrow> (error + emote) \<times> world" where
  "create_emote env rnd now n author_id anim w =
     (case ensure_emote_does_not_exist n w of
        Inl err \<Rightarrow> (Inl err, w)
      | Inr _ \<Rightarrow>
     (case free_guild rnd anim w of
        (Inl err, w1) \<Rightarrow> (Inl err, w1)
      | (Inr g, w1) \<Rightarrow>
     (let w2 = emit (Http_create g n) w1 in
      case create_custom_emoji env g n of
        Inl ex \<Rightarrow> (Inl (Discord ex), w2)
      | Inr new_id \<Rightarrow>
          (let row = new_row now n new_id author_id anim (Some g)
           in (Inr row, insert_emote row w2)))))"

text \<open>
  \<open>remove_emote\<close>: the argument is a name (\<open>Inl\<close>) or a \<open>DatabaseEmote\<close> (\<open>Inr\<close>).
  \<open>discord.NotFound\<close> from the external call is caught and logged as a warning; any
  other exception of the call leaves the method before the \<open>DELETE\<close>.
\<close>

definition resolve_emote :: "string + emote \<Rightarrow> world \<Rightarrow> error + emote" where
  "resolve_emote arg w = (case arg of Inl n \<Rightarrow> get_emote n w | Inr e \<Rightarrow> Inr e)"

definition remove_emote ::
  "env \<Rightarrow> string + emote \<Rightarrow> int option \<Rightarrow> world \<Rightarrow> (error + emote) \<times> world" where
  "remove_emote env arg user_id w =
     (case resolve_emote arg w of
        Inl err \<Rightarrow> (Inl err, w)
      | Inr e \<Rightarrow>
     (case owner_check env e user_id of
        Inl err \<Rightarrow> (Inl err, w)
      | Inr _ \<Rightarrow>
     (let w1 = emit (Http_delete (guild e) (emote_id e)) w in
      case delete_custom_emoji env (guild e) (emote_id e) of
        Some NotFound \<Rightarrow> (Inr e, delete_emote_row env (emote_id e) (emit (Log_warn (name e)) w1))
      | Some ex \<Rightarrow> (Inl (Discord ex), w1)
      | None \<Rightarrow> (Inr e, delete_emote_row env (emote_id e) w1))))"

text \<open>
  \<open>rename_emote\<close>. \<open>RETURNING *\<close> gives the updated row; \<open>DatabaseEmote(None)\<close> would be
  a \<open>TypeError\<close>.
\<close>

definition rename_emote ::
  "env \<Rightarrow> string \<Rightarrow> string \<Rightarrow> int option \<Rightarrow> world \<Rightarrow> (error + emote) \<times> world" where
  "rename_emote env old_name new_name user_id w =
     (case (if lower old_name \<noteq> lower new_name
            then ensure_emote_does_not_exist new_name w else Inr ()) of
        Inl err \<Rightarrow> (Inl err, w)
      | Inr _ \<Rightarrow>
     (case get_emote old_name w of
        Inl err \<Rightarrow> (Inl err, w)
      | Inr e \<Rightarrow>
     (case owner_check env e user_id of
        Inl err \<Rightarrow> (Inl err, w)
      | Inr _ \<Rightarrow>
     (let w1 = emit (Http_edit (guild e) (emote_id e) new_name) w in
      case edit_custom_emoji env (guild e) (emote_id e) new_name of
        Some ex \<Rightarrow> (Inl (Discord ex), w1)
      | None \<Rightarrow>
          (let w2 = update_name (emote_id e) new_name w1
           in case find (\<lambda>r. emote_id r = emote_id e) (emotes w2) of
                None \<Rightarrow> (Inl TypeError, w2)
              | Some r \<Rightarrow> (Inr r, w2))))))"

text \<open>
  \<open>decayable_emotes\<close>: \<open>now\<close> is \<open>datetime.utcnow()\<close>. The query groups by \<open>e.id\<close>, the
  key of the table, so each row of \<open>emotes\<close> is its own group and \<open>COUNT(euh.id)\<close> is the
  number of its usage rows that passed the join condition \<open>time > $1\<close>. The last
  argument of the query is a number and no channel, so the cursor yields every row.
\<close>

definition usage_since :: "int \<Rightarrow> int \<Rightarrow> world \<Rightarrow> int" where
  "usage_since eid cutoff w =
     int (length (filter (\<lambda>u. fst u = eid \<and> snd u > cutoff) (emote_usage_history w)))"

definition decayable_emotes :: "env \<Rightarrow> int \<Rightarrow> world \<Rightarrow> emote list" where
  "decayable_emotes env now w =
     (let cutoff_time = now - decay_cutoff_time env;
          usage_threshold = decay_cutoff_usage env
      in filter (\<lambda>e. created e < cutoff_time \<and> \<not> preserve e
                     \<and> usage_since (emote_id e) cutoff_time w < usage_threshold) (emotes w))"

text \<open>
  \<open>log_emote_use\<close>: \<open>INSERT ... SELECT ($1) WHERE NOT EXISTS (SELECT 1 FROM emotes WHERE
  id = $1 AND author = $2)\<close>; the column \<open>time\<close> takes its default, the time of the
  statement.
\<close>

definition log_emote_use :: "int \<Rightarrow> int \<Rightarrow> int \<Rightarrow> world \<Rightarrow> world" where
  "log_emote_use now eid user_id w =
     (if \<exists>e \<in> set (emotes w). emote_id e = eid \<and> author e = user_id
      then w
      else w\<lparr>emote_usage_history := emote_usage_history w @ [(eid, now)]\<rparr>)"

text \<open>
  The classes named by \<open>except (errors.ConnoisseurError, errors.DiscordError)\<close>. The
  module \<open>errors\<close> is not part of the sources: the errors of the bot's own domain count
  as \<open>ConnoisseurError\<close>. The exceptions of the discord library and of Python are
  classes defined outside the bot, none of them below a class of the bot, and are not
  caught by this clause.
\<close>

fun is_ConnoisseurError :: "error \<Rightarrow> bool" where
  "is_ConnoisseurError (EmoteNotFoundError _) = True"
| "is_ConnoisseurError (EmoteExistsError _) = True"
| "is_ConnoisseurError (PermissionDeniedError _) = True"
| "is_ConnoisseurError NoMoreSlotsError = True"
| "is_ConnoisseurError (UserBlacklisted _) = True"
| "is_ConnoisseurError _ = False"

definition decay_catches :: "error \<Rightarrow> bool" where
  "decay_catches err = (is_ConnoisseurError err \<or> err = DiscordError)"

text \<open>
  \<open>decay\<close>: the loop over the candidates, which the cursor has selected when the loop
  starts. A caught error is logged and the message of the logger is deleted (the
  deletion itself is taken to succeed); \<open>removal_message\<close> being \<open>None\<close> raises the
  \<open>AttributeError\<close> that is suppressed. An error that the clause does not catch leaves
  the loop and the method.
\<close>

fun decay_over :: "env \<Rightarrow> emote list \<Rightarrow> world \<Rightarrow> (error + unit) \<times> world" where
  "decay_over env [] w = (Inr (), w)"
| "decay_over env (e # es) w =
     (let w1 = emit (Log_debug (name e)) w;
          removal_message = on_emote_decay env e;
          w2 = emit (Decay_notified (emote_id e)) w1
      in case remove_emote env (Inr e) None w2 of
           (Inr _, w3) \<Rightarrow> decay_over env es w3
         | (Inl ex, w3) \<Rightarrow>
             if decay_catches ex
             then (let w4 = emit (Log_error (name e) ex) w3;
                       w5 = (case removal_message of
                               None \<Rightarrow> w4
                             | Some m \<Rightarrow> emit (Message_deleted m) w4)
                   in decay_over env es w5)
             else (Inl ex, w3))"

definition decay :: "env \<Rightarrow> int \<Rightarrow> world \<Rightarrow> (error + unit) \<times> world" where
  "decay env now w = decay_over env (decayable_emotes env now w) w"

section \<open>Actions of \<^verbatim>\<open>cogs/db.py\<close>\<close>

text \<open>
  \<open>if blacklist_reason: raise errors.UserBlacklisted(blacklist_reason)\<close>: the condition
  is false for \<open>None\<close> and for the empty string.
\<close>

definition blacklist_check :: "string option \<Rightarrow> error + unit" where
  "blacklist_check reason =
     (case reason of
        None \<Rightarrow> Inr ()
      | Some r \<Rightarrow> if r \<noteq> [] then Inl (UserBlacklisted r) else Inr ())"

definition cogs_create_emote ::
  "env \<Rightarrow> nat \<Rightarrow> int \<Rightarrow> string \<Rightarrow> int \<Rightarrow> bool \<Rightarrow> world \<Rightarrow> (error + emote option) \<times> world" where
  "cogs_create_emote env rnd now n author_id anim w =
     (case blacklist_check (get_user_blacklist author_id w) of
        Inl err \<Rightarrow> (Inl err, w)
      | Inr _ \<Rightarrow>
     (case cogs_ensure_emote_does_not_exist n w of
        Inl err \<Rightarrow> (Inl err, w)
      | Inr _ \<Rightarrow>
     (case cogs_free_guild env rnd anim w of
        (Inl err, w1) \<Rightarrow> (Inl err, w1)
      | (Inr g, w1) \<Rightarrow>
     (let w2 = emit (Http_create (cg_id g) n) w1 in
      case create_custom_emoji env (cg_id g) n of
        Inl ex \<Rightarrow> (Inl (Discord ex), w2)
      | Inr new_id \<Rightarrow>
          (let w3 = insert_emote (new_row now n new_id author_id anim None) w2
           in (Inr (cogs_get_emote n w3), w3))))))"

text \<open>
  \<open>remove_emote\<close>: the emoji object comes from the client's cache; \<open>None\<close> there raises
  \<open>errors.DiscordError\<close>. \<open>raise errors.EmoteNotFoundError\<close> passes no name. Both tables
  are cleared by statements of their own.
\<close>

definition cogs_remove_emote ::
  "env \<Rightarrow> string \<Rightarrow> int option \<Rightarrow> world \<Rightarrow> (error + unit) \<times> world" where
  "cogs_remove_emote env n user_id w =
     (case (case user_id of None \<Rightarrow> Inr () | Some u \<Rightarrow> cogs_owner_check env n u w) of
        Inl err \<Rightarrow> (Inl err, w)
      | Inr _ \<Rightarrow>
     (case cogs_get_emote n w of
        None \<Rightarrow> (Inl (EmoteNotFoundError []), w)
      | Some db_emote \<Rightarrow>
     (case bot_get_emoji env (emote_id db_emote) of
        None \<Rightarrow> (Inl DiscordError, w)
      | Some g \<Rightarrow>
     (let w1 = emit (Http_delete (Some g) (emote_id db_emote)) w in
      case delete_custom_emoji env (Some g) (emote_id db_emote) of
        Some ex \<Rightarrow> (Inl (Discord ex), w1)
      | None \<Rightarrow>
          (Inr (), w1\<lparr>emote_usage_history :=
                         filter (\<lambda>u. fst u \<noteq> emote_id db_emote) (emote_usage_history w1),
                       emotes := filter (\<lambda>e. emote_id e \<noteq> emote_id db_emote) (emotes w1)\<rparr>)))))"

text \<open>
  \<open>rename_emote\<close>: the owner check comes first. \<open>db_emote['id']\<close> on the empty
  dictionary is a \<open>KeyError\<close>, \<open>emote.edit\<close> on \<open>None\<close> an \<open>AttributeError\<close>.
\<close>

definition cogs_rename_emote ::
  "env \<Rightarrow> string \<Rightarrow> string \<Rightarrow> int \<Rightarrow> world \<Rightarrow> (error + unit) \<times> world" where
  "cogs_rename_emote env old_name new_name user_id w =
     (case cogs_owner_check env old_name user_id w of
        Inl err \<Rightarrow> (Inl err, w)
      | Inr _ \<Rightarrow>
     (if lower old_name \<noteq> lower new_name \<and> cogs_get_emote new_name w \<noteq> None
      then (Inl (EmoteExistsError new_name), w)
      else
     (case cogs_get_emote old_name w of
        None \<Rightarrow> (Inl KeyError, w)
      | Some db_emote \<Rightarrow>
     (case bot_get_emoji env (emote_id db_emote) of
        None \<Rightarrow> (Inl AttributeError, w)
      | Some g \<Rightarrow>
     (let w1 = emit (Http_edit (Some g) (emote_id db_emote) new_name) w in
      case edit_custom_emoji env (Some g) (emote_id db_emote) new_name of
        Some ex \<Rightarrow> (Inl (Discord ex), w1)
      | None \<Rightarrow> (Inr (), update_name (emote_id db_emote) new_name w1))))))"

text \<open>\<open>decayable_emotes(cutoff, usage_threshold)\<close>: both values are arguments.\<close>

definition cogs_decayable_emotes :: "int \<Rightarrow> int \<Rightarrow> world \<Rightarrow> emote list" where
  "cogs_decayable_emotes cutoff usage_threshold w =
     filter (\<lambda>e. usage_since (emote_id e) cutoff w < usage_threshold
                 \<and> \<not> preserve e \<and> created e < cutoff) (emotes w)"

text \<open>\<open>log_emote_use(emote_id)\<close>: an unconditional \<open>INSERT\<close>; there is no acting user.\<close>

definition cogs_log_emote_use :: "int \<Rightarrow> int \<Rightarrow> world \<Rightarrow> world" where
  "cogs_log_emote_use now eid w =
     w\<lparr>emote_usage_history := emote_usage_history w @ [(eid, now)]\<rparr>"

text \<open>
  \<open>decay\<close> calls \<open>self.decayable_emotes()\<close> without the two arguments the method
  requires: Python raises \<open>TypeError\<close> at the call, before any candidate is seen.
\<close>

definition cogs_decay :: "world \<Rightarrow> (error + unit) \<times> world" where
  "cogs_decay w = (Inl TypeError, w)"

section \<open>The invariant of the names\<close>

text \<open>
  The data model's invariant, which \<open>create_emote\<close> and \<open>rename_emote\<close> guard with
  \<open>ensure_emote_does_not_exist\<close>: no two rows share a name up to case.
\<close>

definition names_unique :: "world \<Rightarrow> bool" where
  "names_unique w = distinct (map (\<lambda>e. lower (name e)) (emotes w))"

section \<open>Example data\<close>

text \<open>
  Four emotes, times in days. With \<open>now = 100\<close> and a window of 28 days the cutoff is
  72: \<open>wave\<close> and \<open>Foo\<close> are old and little used, \<open>keep\<close> is preserved, \<open>fresh\<close> is new.
\<close>

definition wave :: emote where
  "wave = new_row 0 ''wave'' 1 42 False (Some 10)"

definition Foo :: emote where
  "Foo = new_row 0 ''Foo'' 2 43 False (Some 10)"

definition keep :: emote where
  "keep = (new_row 0 ''keep'' 3 42 True (Some 11))\<lparr>preserve := True\<rparr>"

definition fresh :: emote where
  "fresh = new_row 90 ''fresh'' 4 43 False (Some 11)"

text \<open>User 7 is blacklisted, user 42 has opted in, guild 5 has opted out.\<close>

definition w0 :: world where
  "w0 = \<lparr>emotes = [wave, Foo, keep, fresh],
         emote_usage_history = [(1, 80), (2, 10), (3, 85)],
         user_opt = [7 \<mapsto> \<lparr>state = None, blacklist_reason = Some ''spam''\<rparr>,
                     42 \<mapsto> \<lparr>state = Some True, blacklist_reason = None\<rparr>],
         guild_opt = [5 \<mapsto> Some False],
         guilds_tbl = [10, 11],
         trace = []\<rparr>"

text \<open>
  The external service refuses to delete emote 1 (\<open>Forbidden\<close>) and no longer has
  emote 3 (\<open>NotFound\<close>); the client's cache holds the emotes 2 and 4. The cached guild
  10 is full of static emojis.
\<close>

definition env0 :: env where
  "env0 = \<lparr>bot_is_owner = (\<lambda>u. u = 1000),
           create_custom_emoji = (\<lambda>g n. Inr 500),
           delete_custom_emoji =
             (\<lambda>g i. if i = 1 then Some Forbidden else if i = 3 then Some NotFound else None),
           edit_custom_emoji = (\<lambda>g i n. None),
           on_emote_decay = (\<lambda>e. Some (emote_id e + 9000)),
           bot_get_emoji = (\<lambda>i. if i = 2 then Some 10 else if i = 4 then Some 11 else None),
           bot_guilds = [\<lparr>cg_id = 10, emojis = replicate 50 False\<rparr>,
                         \<lparr>cg_id = 11, emojis = [False, True]\<rparr>,
                         \<lparr>cg_id = 12, emojis = []\<rparr>],
           decay_cutoff_time = 28,
           decay_cutoff_usage = 2,
           usage_fk_cascade = True\<rparr>"

text \<open>Fifty static emotes in guild 10, and a database whose only guild is that one.\<close>

definition crowd :: "emote list" where
  "crowd = map (\<lambda>i. new_row 0 (''e'' @ replicate i (CHR ''x'')) (100 + int i) 42 False (Some 10))
             [0..<50]"

definition w_full :: world where
  "w_full = w0\<lparr>emotes := crowd\<rparr>"

definition w_crammed :: world where
  "w_crammed = w_full\<lparr>guilds_tbl := [10]\<rparr>"



text \<open>A client cache that holds every emoji, each in guild 11.\<close>

definition env_cached :: env where
  "env_cached = env0\<lparr>bot_get_emoji := (\<lambda>i. Some 11)\<rparr>"

text \<open>The database after a moderator has marked \<open>wave\<close> as NSFW.\<close>

definition w_mod :: world where
  "w_mod = w0\<lparr>emotes := [wave\<lparr>nsfw := ''MOD_NSFW''\<rparr>, Foo, keep, fresh]\<rparr>"

text \<open>
  Three cached guilds whose kinds differ: one full of static emojis with three
  animated ones, one full of animated emojis with two static ones, and one with 30 of
  each.
\<close>

definition g_static_full :: cached_guild where
  "g_static_full = \<lparr>cg_id = 20, emojis = replicate 50 False @ [True, True, True]\<rparr>"

definition g_animated_full :: cached_guild where
  "g_animated_full = \<lparr>cg_id = 21, emojis = replicate 50 True @ [False, False]\<rparr>"

definition g_both :: cached_guild where
  "g_both = \<lparr>cg_id = 22, emojis = replicate 30 False @ replicate 30 True\<rparr>"

definition env_mixed :: env where
  "env_mixed = env0\<lparr>bot_guilds := [g_static_full, g_animated_full, g_both]\<rparr>"

text \<open>A client whose only cached guild is the full guild 10.\<close>

definition env_crammed :: env where
  "env_crammed = env0\<lparr>bot_guilds := [\<lparr>cg_id = 10, emojis = replicate 50 False\<rparr>]\<rparr>"

lemmas ex_defs = wave_def Foo_def keep_def fresh_def w0_def env0_def new_row_def

lemmas eval_defs = create_emote_def cogs_create_emote_def blacklist_check_def
  remove_emote_def cogs_remove_emote_def resolve_emote_def
  rename_emote_def cogs_rename_emote_def
  ensure_emote_does_not_exist_def cogs_ensure_emote_does_not_exist_def
  get_emote_def cogs_get_emote_def fetch_emote_by_name_def lower_def lower_char_def
  is_owner_def owner_check_def cogs_owner_check_def cogs_is_owner_def
  free_guild_def cogs_free_guild_def guilds_def usage_count_def kind_count_def random_pick_def
  insert_emote_def update_name_def delete_emote_row_def delete_usage_def
  decay_def decayable_emotes_def usage_since_def decay_catches_def
  get_user_blacklist_def emit_def Let_def

section \<open>Creation and the blacklist\<close>

lemma cogs_create_emote_blacklisted:
  "get_user_blacklist a w = Some r \<Longrightarrow> r \<noteq> [] \<Longrightarrow>
   cogs_create_emote env rnd now n a anim w = (Inl (UserBlacklisted r), w)"
  by (simp add: cogs_create_emote_def blacklist_check_def)

lemma fetch_emote_user_opt:
  "fetch_emote_by_name n (w\<lparr>user_opt := uo\<rparr>) = fetch_emote_by_name n w"
  by (simp add: fetch_emote_by_name_def)

lemma create_emote_ignores_user_opt:
  "create_emote env rnd now n a anim (w\<lparr>user_opt := uo\<rparr>) =
     (fst (create_emote env rnd now n a anim w),
      (snd (create_emote env rnd now n a anim w))\<lparr>user_opt := uo\<rparr>)"
  by (simp add: create_emote_def ensure_emote_does_not_exist_def get_emote_def
        fetch_emote_user_opt free_guild_def guilds_def usage_count_def emit_def
        insert_emote_def Let_def
      split: sum.splits error.splits option.splits prod.splits)

text \<open>
  C1, as the code has it. In \<^verbatim>\<open>cogs/db.py\<close>, \<open>create_emote\<close> reads the author's
  blacklist reason before anything else: when the reason is a non-empty string the
  call fails with \<open>UserBlacklisted\<close> carrying that reason, and the database and the
  trace are as before, so \<open>free_guild\<close> has not been called and the external service
  has not been asked to create anything. In \<^verbatim>\<open>emote_collector/extensions/db.py\<close>,
  \<open>create_emote\<close> makes no blacklist check: its result does not depend on the table
  \<open>user_opt\<close>.
\<close>

theorem create_emote_blacklist:
  "(get_user_blacklist a w = Some r \<and> r \<noteq> [] \<longrightarrow>
      cogs_create_emote env rnd now n a anim w = (Inl (UserBlacklisted r), w))
 \<and> create_emote env rnd now n a anim (w\<lparr>user_opt := uo\<rparr>) =
     (fst (create_emote env rnd now n a anim w),
      (snd (create_emote env rnd now n a anim w))\<lparr>user_opt := uo\<rparr>)"
  using cogs_create_emote_blacklisted create_emote_ignores_user_opt by blast

theorem create_emote_blacklist_witness:
  "get_user_blacklist 7 w0 = Some ''spam''
   \<and> cogs_create_emote env0 0 100 ''party'' 7 False w0 = (Inl (UserBlacklisted ''spam''), w0)"
  using create_emote_blacklist [of 7 w0 "''spam''" env0 0 100 "''party''" False]
  by (simp add: get_user_blacklist_def w0_def)

text \<open>
  In \<^verbatim>\<open>emote_collector/extensions/db.py\<close> the blacklisted user 7 creates an emote:
  the allocator is called, the external service creates the emoji in guild 10, and
  the row is returned.
\<close>

theorem create_emote_blacklisted_counterexample:
  "get_user_blacklist 7 w0 = Some ''spam''
   \<and> fst (create_emote env0 0 100 ''party'' 7 False w0)
       = Inr (new_row 100 ''party'' 500 7 False (Some 10))
   \<and> trace (snd (create_emote env0 0 100 ''party'' 7 False w0))
       = [Free_guild_called False, Http_create 10 ''party'']"
  by (simp add: eval_defs ex_defs)

section \<open>Slot allocation never returns a full slot\<close>

lemma random_pick_mem: "random_pick rnd xs = Some x \<Longrightarrow> x \<in> set xs"
  by (auto simp: random_pick_def split: if_splits)

lemma random_pick_reaches: "x \<in> set xs \<Longrightarrow> \<exists>rnd. random_pick rnd xs = Some x"
proof -
  assume "x \<in> set xs"
  then obtain i where i: "i < length xs" "xs ! i = x"
    by (auto simp: in_set_conv_nth)
  then have "random_pick i xs = Some x"
    by (auto simp: random_pick_def)
  then show ?thesis ..
qed

text \<open>The query of \<open>free_guild\<close> on the view is a draw among the guilds under 50.\<close>

lemma free_guild_pick:
  "fst (free_guild rnd anim w) =
     (case random_pick rnd (filter (\<lambda>g. usage_count anim g w < 50) (guilds_tbl w)) of
        None \<Rightarrow> Inl NoMoreSlotsError | Some g \<Rightarrow> Inr g)"
  by (cases anim)
     (simp_all add: free_guild_def guilds_def Let_def filter_map comp_def split: option.splits)

lemma cogs_free_guild_pick:
  "fst (cogs_free_guild env rnd anim w) =
     (case random_pick rnd (filter (\<lambda>g. kind_count anim g < 50) (bot_guilds env)) of
        None \<Rightarrow> Inl NoMoreSlotsError | Some g \<Rightarrow> Inr g)"
  by (simp add: cogs_free_guild_def Let_def split: option.splits)

text \<open>The count of \<^verbatim>\<open>cogs/db.py\<close> is the number of the guild's emojis of the kind asked for.\<close>

lemma kind_count_occupancy:
  "kind_count anim g = length (filter (\<lambda>a. a = anim) (emojis g))"
proof -
  have "(\<lambda>a. anim = a) = (\<lambda>a. a = anim)" by auto
  then show ?thesis by (simp add: kind_count_def)
qed

text \<open>
  C2. For either kind, \<open>free_guild\<close> returns only a backend guild that holds fewer than
  50 emotes of that kind; when every backend guild holds 50 or more of that kind it
  fails with \<open>NoMoreSlotsError\<close>; and every guild under 50 is returned for some outcome
  of the random draw, so the choice is not tied to the first candidate. This holds for
  the query of \<^verbatim>\<open>emote_collector/extensions/db.py\<close> (first three parts) and for the loop
  over the cached guilds of \<^verbatim>\<open>cogs/db.py\<close> (last three parts), where the occupancy of
  a guild for a kind is the number of its emojis whose \<open>animated\<close> flag is that kind.
\<close>

theorem free_guild_under_capacity:
  "(fst (free_guild rnd anim w) = Inr g \<longrightarrow>
      g \<in> set (guilds_tbl w) \<and> usage_count anim g w < 50)
 \<and> ((\<forall>g \<in> set (guilds_tbl w). 50 \<le> usage_count anim g w) \<longrightarrow>
      fst (free_guild rnd anim w) = Inl NoMoreSlotsError)
 \<and> (\<forall>g \<in> set (guilds_tbl w). usage_count anim g w < 50 \<longrightarrow>
      (\<exists>r. fst (free_guild r anim w) = Inr g))
 \<and> (fst (cogs_free_guild env rnd anim w) = Inr cg \<longrightarrow>
      cg \<in> set (bot_guilds env) \<and> length (filter (\<lambda>a. a = anim) (emojis cg)) < 50)
 \<and> ((\<forall>cg \<in> set (bot_guilds env). 50 \<le> length (filter (\<lambda>a. a = anim) (emojis cg))) \<longrightarrow>
      fst (cogs_free_guild env rnd anim w) = Inl NoMoreSlotsError)
 \<and> (\<forall>cg \<in> set (bot_guilds env). length (filter (\<lambda>a. a = anim) (emojis cg)) < 50 \<longrightarrow>
      (\<exists>r. fst (cogs_free_guild env r anim w) = Inr cg))"
proof (intro conjI impI ballI)
  assume "fst (free_guild rnd anim w) = Inr g"
  then have "random_pick rnd (filter (\<lambda>g. usage_count anim g w < 50) (guilds_tbl w)) = Some g"
    by (simp add: free_guild_pick split: option.splits)
  from random_pick_mem [OF this]
  show "g \<in> set (guilds_tbl w)" and "usage_count anim g w < 50" by simp_all
next
  assume "\<forall>g \<in> set (guilds_tbl w). 50 \<le> usage_count anim g w"
  then have "filter (\<lambda>g. usage_count anim g w < 50) (guilds_tbl w) = []"
    by (auto simp: filter_empty_conv)
  then show "fst (free_guild rnd anim w) = Inl NoMoreSlotsError"
    by (simp add: free_guild_pick random_pick_def)
next
  fix g assume "g \<in> set (guilds_tbl w)" "usage_count anim g w < 50"
  then have "g \<in> set (filter (\<lambda>g. usage_count anim g w < 50) (guilds_tbl w))" by simp
  from random_pick_reaches [OF this] obtain r where
    "random_pick r (filter (\<lambda>g. usage_count anim g w < 50) (guilds_tbl w)) = Some g" ..
  then have "fst (free_guild r anim w) = Inr g" by (simp add: free_guild_pick)
  then show "\<exists>r. fst (free_guild r anim w) = Inr g" ..
next
  assume "fst (cogs_free_guild env rnd anim w) = Inr cg"
  then have "random_pick rnd (filter (\<lambda>g. kind_count anim g < 50) (bot_guilds env)) = Some cg"
    by (simp add: cogs_free_guild_pick split: option.splits)
  from random_pick_mem [OF this]
  show "cg \<in> set (bot_guilds env)"
    and "length (filter (\<lambda>a. a = anim) (emojis cg)) < 50"
    by (simp_all add: kind_count_occupancy)
next
  assume "\<forall>cg \<in> set (bot_guilds env). 50 \<le> length (filter (\<lambda>a. a = anim) (emojis cg))"
  then have "filter (\<lambda>g. kind_count anim g < 50) (bot_guilds env) = []"
    by (auto simp: filter_empty_conv kind_count_occupancy)
  then show "fst (cogs_free_guild env rnd anim w) = Inl NoMoreSlotsError"
    by (simp add: cogs_free_guild_pick random_pick_def)
next
  fix cg
  assume "cg \<in> set (bot_guilds env)" "length (filter (\<lambda>a. a = anim) (emojis cg)) < 50"
  then have "cg \<in> set (filter (\<lambda>g. kind_count anim g < 50) (bot_guilds env))"
    by (simp add: kind_count_occupancy)
  from random_pick_reaches [OF this] obtain r where
    "random_pick r (filter (\<lambda>g. kind_count anim g < 50) (bot_guilds env)) = Some cg" ..
  then have "fst (cogs_free_guild env r anim w) = Inr cg" by (simp add: cogs_free_guild_pick)
  then show "\<exists>r. fst (cogs_free_guild env r anim w) = Inr cg" ..
qed

lemma usage_crowd:
  "usage_count False 10 w_full = 50" "usage_count False 11 w_full = 0"
  "usage_count True 10 w_full = 0"
  by (simp_all add: usage_count_def w_full_def crowd_def new_row_def filter_map comp_def)

lemma usage_crammed: "usage_count False 10 w_crammed = 50"
  by (simp add: usage_count_def w_crammed_def w_full_def crowd_def new_row_def
        filter_map comp_def)

text \<open>
  With guild 10 full of static emotes, a static request with the draw 0 gets guild 11
  and an animated request gets guild 10; with guild 10 the only guild the static
  allocation fails; among two free candidates the draw 1 returns the second.

  For the cached guilds of \<^verbatim>\<open>cogs/db.py\<close> the kinds are counted apart: the guild with
  50 static and 3 animated emojis is never returned for a static request and is
  returned for an animated one, the guild with 50 animated and 2 static emojis the
  other way round, and the guild with 30 of each, 60 emojis in all, is returned for
  both kinds.
\<close>

theorem free_guild_under_capacity_witness:
  "usage_count False 10 w_crammed = 50
   \<and> fst (free_guild 0 False w_crammed) = Inl NoMoreSlotsError
   \<and> fst (free_guild 0 False w_full) = Inr 11
   \<and> 11 \<in> set (guilds_tbl w_full) \<and> usage_count False 11 w_full < 50
   \<and> usage_count False 10 w_full = 50 \<and> usage_count True 10 w_full = 0
   \<and> (\<forall>r. fst (free_guild r False w_full) \<noteq> Inr 10)
   \<and> fst (free_guild 0 True w_full) = Inr 10
   \<and> fst (free_guild 1 False w0) = Inr 11
   \<and> (\<exists>r. fst (free_guild r False w0) = Inr 10)
   \<and> length (filter (\<lambda>a. a = False) (emojis g_static_full)) = 50
   \<and> length (filter (\<lambda>a. a = True) (emojis g_static_full)) = 3
   \<and> length (filter (\<lambda>a. a = True) (emojis g_animated_full)) = 50
   \<and> length (filter (\<lambda>a. a = False) (emojis g_animated_full)) = 2
   \<and> length (filter (\<lambda>a. a = False) (emojis g_both)) = 30
   \<and> length (filter (\<lambda>a. a = True) (emojis g_both)) = 30
   \<and> (\<forall>r. fst (cogs_free_guild env_mixed r False w0) \<noteq> Inr g_static_full)
   \<and> (\<forall>r. fst (cogs_free_guild env_mixed r True w0) \<noteq> Inr g_animated_full)
   \<and> fst (cogs_free_guild env_mixed 0 False w0) = Inr g_animated_full
   \<and> fst (cogs_free_guild env_mixed 1 False w0) = Inr g_both
   \<and> fst (cogs_free_guild env_mixed 0 True w0) = Inr g_static_full
   \<and> fst (cogs_free_guild env_mixed 1 True w0) = Inr g_both
   \<and> (\<exists>r. fst (cogs_free_guild env_mixed r True w0) = Inr g_both)
   \<and> length (filter (\<lambda>a. a = False) (emojis \<lparr>cg_id = 10, emojis = replicate 50 False\<rparr>)) = 50
   \<and> fst (cogs_free_guild env_crammed 0 False w_crammed) = Inl NoMoreSlotsError
   \<and> fst (cogs_free_guild env_crammed 0 True w_crammed)
       = Inr \<lparr>cg_id = 10, emojis = replicate 50 False\<rparr>"
proof -
  have full: "\<forall>g \<in> set (guilds_tbl w_crammed). 50 \<le> usage_count False g w_crammed"
    using usage_crammed by (simp add: w_crammed_def w_full_def w0_def)
  have pick: "fst (free_guild 0 False w_full) = Inr 11"
             "fst (free_guild 0 True w_full) = Inr 10"
    using usage_crowd
    by (simp_all add: free_guild_pick random_pick_def w_full_def w0_def)
  have pick0: "fst (free_guild 1 False w0) = Inr 11"
    by (simp add: free_guild_pick random_pick_def usage_count_def ex_defs)
  have free10: "10 \<in> set (guilds_tbl w0)" "usage_count False 10 w0 < 50"
    by (simp_all add: usage_count_def ex_defs)
  have occ: "length (filter (\<lambda>a. a = False) (emojis g_static_full)) = 50"
            "length (filter (\<lambda>a. a = True) (emojis g_static_full)) = 3"
            "length (filter (\<lambda>a. a = True) (emojis g_animated_full)) = 50"
            "length (filter (\<lambda>a. a = False) (emojis g_animated_full)) = 2"
            "length (filter (\<lambda>a. a = False) (emojis g_both)) = 30"
            "length (filter (\<lambda>a. a = True) (emojis g_both)) = 30"
    by (simp_all add: g_static_full_def g_animated_full_def g_both_def)
  have mem: "g_both \<in> set (bot_guilds env_mixed)"
    by (simp add: env_mixed_def)
  have cpick: "fst (cogs_free_guild env_mixed 0 False w0) = Inr g_animated_full"
              "fst (cogs_free_guild env_mixed 1 False w0) = Inr g_both"
              "fst (cogs_free_guild env_mixed 0 True w0) = Inr g_static_full"
              "fst (cogs_free_guild env_mixed 1 True w0) = Inr g_both"
    using occ
    by (simp_all add: cogs_free_guild_pick random_pick_def kind_count_occupancy env_mixed_def)
  have cfull: "length (filter (\<lambda>a. a = False)
                 (emojis \<lparr>cg_id = 10, emojis = replicate 50 False\<rparr>)) = 50"
    by simp
  then have call: "\<forall>cg \<in> set (bot_guilds env_crammed).
                     50 \<le> length (filter (\<lambda>a. a = False) (emojis cg))"
    by (simp add: env_crammed_def env0_def)
  have canim: "fst (cogs_free_guild env_crammed 0 True w_crammed)
                 = Inr \<lparr>cg_id = 10, emojis = replicate 50 False\<rparr>"
    by (simp add: cogs_free_guild_pick random_pick_def kind_count_occupancy env_crammed_def
          env0_def)
  have never10: "fst (free_guild r False w_full) \<noteq> Inr 10" for r
    using free_guild_under_capacity [of r False w_full 10 env0 g_both] usage_crowd
    by auto
  have never_static: "fst (cogs_free_guild env_mixed r False w0) \<noteq> Inr g_static_full" for r
    using free_guild_under_capacity [of r False w0 10 env_mixed g_static_full] occ
    by auto
  have never_animated: "fst (cogs_free_guild env_mixed r True w0) \<noteq> Inr g_animated_full" for r
    using free_guild_under_capacity [of r True w0 10 env_mixed g_animated_full] occ
    by auto
  from full pick pick0 free10 occ mem cpick cfull call canim usage_crammed usage_crowd
       never10 never_static never_animated
       free_guild_under_capacity
         [of 0 False w_crammed 10 env_crammed "\<lparr>cg_id = 12, emojis = []\<rparr>"]
       free_guild_under_capacity [of 0 False w_full 11 env0 g_both]
       free_guild_under_capacity [of 1 False w0 11 env_mixed g_both]
       free_guild_under_capacity [of 1 True w0 11 env_mixed g_both]
  show ?thesis by blast
qed

section \<open>Renaming\<close>

lemma find_by_key_unique:
  "distinct (map f xs) \<Longrightarrow> x \<in> set xs \<Longrightarrow> find (\<lambda>y. f y = f x) xs = Some x"
  by (induction xs) (auto simp: image_iff)

lemma fetch_emote_unique:
  assumes "names_unique w" "other \<in> set (emotes w)" "lower (name other) = lower n"
  shows "fetch_emote_by_name n w = Some other"
  using find_by_key_unique [of "\<lambda>e. lower (name e)" "emotes w" other] assms
  by (simp add: fetch_emote_by_name_def names_unique_def)

lemma fetch_emote_Some:
  "fetch_emote_by_name n w = Some e \<Longrightarrow> e \<in> set (emotes w) \<and> lower (name e) = lower n"
  by (auto simp: fetch_emote_by_name_def find_Some_iff)

lemma find_renamed:
  "find (\<lambda>r. emote_id r = eid)
        (map (\<lambda>r. if emote_id r = eid then r\<lparr>name := n\<rparr> else r) xs)
   = map_option (\<lambda>r. r\<lparr>name := n\<rparr>) (find (\<lambda>r. emote_id r = eid) xs)"
  by (induction xs) auto

lemma find_by_id_exists:
  "e \<in> set xs \<Longrightarrow> \<exists>r. find (\<lambda>r. emote_id r = emote_id e) xs = Some r \<and> emote_id r = emote_id e"
  by (induction xs) auto

lemma rename_same_case:
  assumes "fetch_emote_by_name old_name w = Some e" "is_owner env e user"
          "lower new_name = lower old_name"
  shows "\<forall>x. fst (rename_emote env old_name new_name user w) \<noteq> Inl (EmoteExistsError x)"
    and "edit_custom_emoji env (guild e) (emote_id e) new_name = None \<Longrightarrow>
         \<exists>r. rename_emote env old_name new_name user w =
               (Inr r, update_name (emote_id e) new_name
                         (emit (Http_edit (guild e) (emote_id e) new_name) w))
             \<and> name r = new_name \<and> emote_id r = emote_id e"
proof -
  from assms(1) have mem: "e \<in> set (emotes w)"
    by (auto dest: fetch_emote_Some)
  from find_by_id_exists [OF mem] obtain r0 where
    r0: "find (\<lambda>r. emote_id r = emote_id e) (emotes w) = Some r0" "emote_id r0 = emote_id e"
    by blast
  have found: "find (\<lambda>r. emote_id r = emote_id e)
                 (emotes (update_name (emote_id e) new_name
                    (emit (Http_edit (guild e) (emote_id e) new_name) w)))
               = Some (r0\<lparr>name := new_name\<rparr>)"
    using r0 by (simp add: update_name_def emit_def find_renamed)
  show "\<forall>x. fst (rename_emote env old_name new_name user w) \<noteq> Inl (EmoteExistsError x)"
    using assms found
    by (cases "edit_custom_emoji env (guild e) (emote_id e) new_name")
       (simp_all add: rename_emote_def get_emote_def owner_check_def Let_def)
  show "\<exists>r. rename_emote env old_name new_name user w =
               (Inr r, update_name (emote_id e) new_name
                         (emit (Http_edit (guild e) (emote_id e) new_name) w))
             \<and> name r = new_name \<and> emote_id r = emote_id e"
    if "edit_custom_emoji env (guild e) (emote_id e) new_name = None"
    using assms found that r0
    by (simp add: rename_emote_def get_emote_def owner_check_def Let_def)
qed

text \<open>
  While the names are unique, a name held by another emote differs from the emote's
  own name up to case, and the lookup of it finds that other emote.
\<close>

lemma rename_taken:
  assumes "names_unique w" "fetch_emote_by_name old_name w = Some e"
          "other \<in> set (emotes w)" "emote_id other \<noteq> emote_id e"
          "lower (name other) = lower new_name"
  shows "lower old_name \<noteq> lower new_name"
    and "fetch_emote_by_name new_name w = Some other"
proof -
  show new: "fetch_emote_by_name new_name w = Some other"
    using assms by (simp add: fetch_emote_unique)
  show "lower old_name \<noteq> lower new_name"
  proof
    assume "lower old_name = lower new_name"
    then have "fetch_emote_by_name old_name w = fetch_emote_by_name new_name w"
      by (simp add: fetch_emote_by_name_def)
    with new assms(2,4) show False by simp
  qed
qed

lemma rename_emote_taken:
  assumes "names_unique w" "fetch_emote_by_name old_name w = Some e"
          "other \<in> set (emotes w)" "emote_id other \<noteq> emote_id e"
          "lower (name other) = lower new_name"
  shows "rename_emote env old_name new_name user w = (Inl (EmoteExistsError (name other)), w)"
  using rename_taken [OF assms]
  by (simp add: rename_emote_def ensure_emote_does_not_exist_def get_emote_def)

lemma cogs_rename_same_case:
  assumes "fetch_emote_by_name old_name w = Some e" "is_owner env e (Some u)"
          "lower new_name = lower old_name"
  shows "\<forall>x. fst (cogs_rename_emote env old_name new_name u w) \<noteq> Inl (EmoteExistsError x)"
    and "bot_get_emoji env (emote_id e) = Some g \<Longrightarrow>
         edit_custom_emoji env (Some g) (emote_id e) new_name = None \<Longrightarrow>
         cogs_rename_emote env old_name new_name u w =
           (Inr (), update_name (emote_id e) new_name
                      (emit (Http_edit (Some g) (emote_id e) new_name) w))"
  using assms
  by (auto simp: cogs_rename_emote_def cogs_owner_check_def cogs_is_owner_def
        cogs_get_emote_def is_owner_def Let_def split: option.splits)

lemma cogs_rename_emote_taken:
  assumes "names_unique w" "fetch_emote_by_name old_name w = Some e"
          "is_owner env e (Some u)"
          "other \<in> set (emotes w)" "emote_id other \<noteq> emote_id e"
          "lower (name other) = lower new_name"
  shows "cogs_rename_emote env old_name new_name u w = (Inl (EmoteExistsError new_name), w)"
  using rename_taken [OF assms(1,2,4,5,6)] assms(2,3)
  by (auto simp: cogs_rename_emote_def cogs_owner_check_def cogs_is_owner_def
        cogs_get_emote_def is_owner_def)

text \<open>
  C3. Let \<open>e\<close> be the emote that the lookup of \<open>old_name\<close> finds and let the user be
  authorized for it (\<open>is_owner\<close>). If \<open>new_name\<close> equals \<open>old_name\<close> up to case,
  \<open>rename_emote\<close> never fails with \<open>EmoteExistsError\<close>, and when the external rename
  goes through it succeeds: the row carries the new name. If, in a table with unique
  names, \<open>new_name\<close> is up to case the name of another emote, \<open>rename_emote\<close> fails with
  \<open>EmoteExistsError\<close> and changes nothing. Both hold for
  \<^verbatim>\<open>emote_collector/extensions/db.py\<close> (first two parts) and for \<^verbatim>\<open>cogs/db.py\<close> (last
  two parts), where success also needs the emoji in the client's cache.
\<close>

theorem rename_emote_case_insensitive:
  "(fetch_emote_by_name old_name w = Some e \<and> is_owner env e user
      \<and> lower new_name = lower old_name \<longrightarrow>
      (\<forall>x. fst (rename_emote env old_name new_name user w) \<noteq> Inl (EmoteExistsError x))
    \<and> (edit_custom_emoji env (guild e) (emote_id e) new_name = None \<longrightarrow>
         (\<exists>r. rename_emote env old_name new_name user w =
                 (Inr r, update_name (emote_id e) new_name
                           (emit (Http_edit (guild e) (emote_id e) new_name) w))
               \<and> name r = new_name \<and> emote_id r = emote_id e)))
 \<and> (names_unique w \<and> fetch_emote_by_name old_name w = Some e
      \<and> other \<in> set (emotes w) \<and> emote_id other \<noteq> emote_id e
      \<and> lower (name other) = lower new_name \<longrightarrow>
      rename_emote env old_name new_name user w = (Inl (EmoteExistsError (name other)), w))
 \<and> (fetch_emote_by_name old_name w = Some e \<and> is_owner env e (Some u)
      \<and> lower new_name = lower old_name \<longrightarrow>
      (\<forall>x. fst (cogs_rename_emote env old_name new_name u w) \<noteq> Inl (EmoteExistsError x))
    \<and> (bot_get_emoji env (emote_id e) = Some g
        \<and> edit_custom_emoji env (Some g) (emote_id e) new_name = None \<longrightarrow>
         cogs_rename_emote env old_name new_name u w =
           (Inr (), update_name (emote_id e) new_name
                      (emit (Http_edit (Some g) (emote_id e) new_name) w))))
 \<and> (names_unique w \<and> fetch_emote_by_name old_name w = Some e
      \<and> is_owner env e (Some u)
      \<and> other \<in> set (emotes w) \<and> emote_id other \<noteq> emote_id e
      \<and> lower (name other) = lower new_name \<longrightarrow>
      cogs_rename_emote env old_name new_name u w = (Inl (EmoteExistsError new_name), w))"
proof (intro conjI impI; (elim conjE)?)
  assume h: "fetch_emote_by_name old_name w = Some e" "is_owner env e user"
            "lower new_name = lower old_name"
  show "\<forall>x. fst (rename_emote env old_name new_name user w) \<noteq> Inl (EmoteExistsError x)"
    by (rule rename_same_case(1) [OF h])
  show "\<exists>r. rename_emote env old_name new_name user w =
                 (Inr r, update_name (emote_id e) new_name
                           (emit (Http_edit (guild e) (emote_id e) new_name) w))
               \<and> name r = new_name \<and> emote_id r = emote_id e"
    if "edit_custom_emoji env (guild e) (emote_id e) new_name = None"
    by (rule rename_same_case(2) [OF h that])
next
  assume "names_unique w" "fetch_emote_by_name old_name w = Some e"
         "other \<in> set (emotes w)" "emote_id other \<noteq> emote_id e"
         "lower (name other) = lower new_name"
  then show "rename_emote env old_name new_name user w = (Inl (EmoteExistsError (name other)), w)"
    by (rule rename_emote_taken)
next
  assume h: "fetch_emote_by_name old_name w = Some e" "is_owner env e (Some u)"
            "lower new_name = lower old_name"
  show "\<forall>x. fst (cogs_rename_emote env old_name new_name u w) \<noteq> Inl (EmoteExistsError x)"
    by (rule cogs_rename_same_case(1) [OF h])
  show "cogs_rename_emote env old_name new_name u w =
           (Inr (), update_name (emote_id e) new_name
                      (emit (Http_edit (Some g) (emote_id e) new_name) w))"
    if "bot_get_emoji env (emote_id e) = Some g"
       "edit_custom_emoji env (Some g) (emote_id e) new_name = None"
    by (rule cogs_rename_same_case(2) [OF h that])
next
  assume "names_unique w" "fetch_emote_by_name old_name w = Some e"
         "is_owner env e (Some u)"
         "other \<in> set (emotes w)" "emote_id other \<noteq> emote_id e"
         "lower (name other) = lower new_name"
  then show "cogs_rename_emote env old_name new_name u w = (Inl (EmoteExistsError new_name), w)"
    by (rule cogs_rename_emote_taken)
qed

text \<open>
  User 43 renames \<open>Foo\<close> to \<open>foo\<close>; the same user's rename of \<open>Foo\<close> to \<open>WAVE\<close> meets
  the emote \<open>wave\<close>.
\<close>

theorem rename_emote_case_insensitive_witness:
  "names_unique w0 \<and> fetch_emote_by_name ''Foo'' w0 = Some Foo
   \<and> is_owner env0 Foo (Some 43) \<and> lower ''foo'' = lower ''Foo''
   \<and> wave \<in> set (emotes w0) \<and> lower (name wave) = lower ''WAVE''
   \<and> fst (rename_emote env0 ''Foo'' ''foo'' (Some 43) w0) = Inr (Foo\<lparr>name := ''foo''\<rparr>)
   \<and> rename_emote env0 ''Foo'' ''WAVE'' (Some 43) w0 = (Inl (EmoteExistsError ''wave''), w0)
   \<and> fst (cogs_rename_emote env0 ''Foo'' ''foo'' 43 w0) = Inr ()
   \<and> cogs_rename_emote env0 ''Foo'' ''WAVE'' 43 w0 = (Inl (EmoteExistsError ''WAVE''), w0)"
proof -
  have uniq: "names_unique w0"
    by (simp add: names_unique_def lower_def lower_char_def ex_defs)
  have foo: "fetch_emote_by_name ''Foo'' w0 = Some Foo"
    by (simp add: fetch_emote_by_name_def lower_def lower_char_def ex_defs)
  have own: "is_owner env0 Foo (Some 43)"
    by (simp add: is_owner_def ex_defs)
  have same: "lower ''foo'' = lower ''Foo''"
    by (simp add: lower_def lower_char_def)
  have other: "wave \<in> set (emotes w0)" "emote_id wave \<noteq> emote_id Foo"
              "lower (name wave) = lower ''WAVE''" "name wave = ''wave''"
    by (simp_all add: lower_def lower_char_def ex_defs)
  have edit: "edit_custom_emoji env0 (guild Foo) (emote_id Foo) ''foo'' = None"
             "bot_get_emoji env0 (emote_id Foo) = Some 10"
             "edit_custom_emoji env0 (Some 10) (emote_id Foo) ''foo'' = None"
    by (simp_all add: ex_defs)
  have renamed: "fst (rename_emote env0 ''Foo'' ''foo'' (Some 43) w0) = Inr (Foo\<lparr>name := ''foo''\<rparr>)"
    by (simp add: eval_defs ex_defs)
  from rename_emote_case_insensitive
         [of "''Foo''" w0 Foo env0 "Some 43" "''foo''" wave 43 10]
       rename_emote_case_insensitive
         [of "''Foo''" w0 Foo env0 "Some 43" "''WAVE''" wave 43 10]
       uniq foo own same other edit renamed
  show ?thesis by simp
qed

section \<open>Decay candidates\<close>

text \<open>
  C4. An emote is selected by \<open>decayable_emotes\<close> if and only if it is a row of the
  table, its creation time is strictly before the cutoff (\<open>now\<close> minus the configured
  window), it is not preserved, and the number of its usage rows with a time strictly
  after the cutoff is strictly below the configured threshold. \<^verbatim>\<open>cogs/db.py\<close> selects
  by the same three conditions on the cutoff and threshold it is given. A preserved
  emote is never selected.
\<close>

theorem decayable_emotes_iff:
  "(e \<in> set (decayable_emotes env now w) \<longleftrightarrow>
      e \<in> set (emotes w)
    \<and> created e < now - decay_cutoff_time env
    \<and> \<not> preserve e
    \<and> int (length (filter (\<lambda>u. fst u = emote_id e \<and> now - decay_cutoff_time env < snd u)
                      (emote_usage_history w))) < decay_cutoff_usage env)
 \<and> (e \<in> set (cogs_decayable_emotes cutoff usage_threshold w) \<longleftrightarrow>
      e \<in> set (emotes w)
    \<and> created e < cutoff
    \<and> \<not> preserve e
    \<and> int (length (filter (\<lambda>u. fst u = emote_id e \<and> cutoff < snd u)
                      (emote_usage_history w))) < usage_threshold)
 \<and> (preserve e \<longrightarrow> e \<notin> set (decayable_emotes env now w)
                   \<and> e \<notin> set (cogs_decayable_emotes cutoff usage_threshold w))"
  by (auto simp: decayable_emotes_def cogs_decayable_emotes_def usage_since_def Let_def)

text \<open>
  \<open>wave\<close>, created 100 days ago and used once since the cutoff, is selected under the
  28-day, 2-use configuration; the preserved \<open>keep\<close> is not.
\<close>

theorem decayable_emotes_iff_witness:
  "decayable_emotes env0 100 w0 = [wave, Foo]
   \<and> wave \<in> set (decayable_emotes env0 100 w0)
   \<and> preserve keep \<and> keep \<notin> set (decayable_emotes env0 100 w0)
   \<and> keep \<notin> set (cogs_decayable_emotes 72 2 w0)"
  using decayable_emotes_iff [of wave env0 100 w0 72 2]
        decayable_emotes_iff [of keep env0 100 w0 72 2]
  by (simp add: decayable_emotes_def usage_since_def ex_defs)

section \<open>Usage ledger\<close>

text \<open>
  C5, as the code has it. \<open>log_emote_use\<close> of \<^verbatim>\<open>emote_collector/extensions/db.py\<close>
  leaves the database unchanged when the acting user is the author of an emote with
  the given id, and appends one usage row otherwise. \<open>log_emote_use\<close> of
  \<^verbatim>\<open>cogs/db.py\<close> takes no acting user and appends one usage row on every call.
\<close>

theorem log_emote_use_not_author:
  "((\<exists>e \<in> set (emotes w). emote_id e = eid \<and> author e = uid) \<longrightarrow>
       log_emote_use now eid uid w = w)
 \<and> (\<not> (\<exists>e \<in> set (emotes w). emote_id e = eid \<and> author e = uid) \<longrightarrow>
       log_emote_use now eid uid w =
         w\<lparr>emote_usage_history := emote_usage_history w @ [(eid, now)]\<rparr>)
 \<and> cogs_log_emote_use now eid w =
         w\<lparr>emote_usage_history := emote_usage_history w @ [(eid, now)]\<rparr>"
  by (simp add: log_emote_use_def cogs_log_emote_use_def)

theorem log_emote_use_not_author_witness:
  "log_emote_use 100 1 42 w0 = w0
   \<and> usage_since 1 72 (log_emote_use 100 1 42 w0) = 1
   \<and> usage_since 1 72 (log_emote_use 100 1 43 w0) = 2"
  using log_emote_use_not_author [of w0 1 42 100] log_emote_use_not_author [of w0 1 43 100]
  by (simp add: usage_since_def ex_defs)

text \<open>
  In \<^verbatim>\<open>cogs/db.py\<close> a use of emote 1 by its author 42 is recorded like any other: the
  call carries no user, and the count of the emote goes from 1 to 2.
\<close>

theorem cogs_log_emote_use_counterexample:
  "wave \<in> set (emotes w0) \<and> emote_id wave = 1 \<and> author wave = 42
   \<and> usage_since 1 72 w0 = 1
   \<and> usage_since 1 72 (cogs_log_emote_use 100 1 w0) = 2"
  by (simp add: usage_since_def cogs_log_emote_use_def ex_defs)

section \<open>Removal\<close>

lemma trace_delete_emote_row: "trace (delete_emote_row env eid w) = trace w"
  by (simp add: delete_emote_row_def delete_usage_def Let_def)

lemma delete_emote_row_emotes:
  "emotes (delete_emote_row env eid w) = filter (\<lambda>r. emote_id r \<noteq> eid) (emotes w)"
  by (simp add: delete_emote_row_def delete_usage_def Let_def)

lemma delete_emote_row_usage_subset:
  "set (emote_usage_history (delete_emote_row env eid w)) \<subseteq> set (emote_usage_history w)"
  by (auto simp: delete_emote_row_def delete_usage_def Let_def)

lemma delete_emote_row_usage:
  "usage_fk_cascade env \<Longrightarrow> \<exists>r \<in> set (emotes w). emote_id r = eid \<Longrightarrow>
   \<forall>u \<in> set (emote_usage_history (delete_emote_row env eid w)). fst u \<noteq> eid"
  by (auto simp: delete_emote_row_def delete_usage_def Let_def)








text \<open>A failed external delete ends the pass at that candidate.\<close>

lemma decay_over_uncaught:
  assumes "delete_custom_emoji env (guild e) (emote_id e) = Some ex" "ex \<noteq> NotFound"
  shows "decay_over env (e # es) w =
           (Inl (Discord ex),
            emit (Http_delete (guild e) (emote_id e))
              (emit (Decay_notified (emote_id e)) (emit (Log_debug (name e)) w)))"
  using assms
  by (cases ex)
     (simp_all add: remove_emote_def resolve_emote_def owner_check_def is_owner_def
        decay_catches_def Let_def)

lemma decay_over_step_ok:
  assumes "delete_custom_emoji env (guild e) (emote_id e) = None
           \<or> delete_custom_emoji env (guild e) (emote_id e) = Some NotFound"
  shows "decay_over env (e # es) w =
           decay_over env es
             (snd (remove_emote env (Inr e) None
                (emit (Decay_notified (emote_id e)) (emit (Log_debug (name e)) w))))"
  using assms
  by (auto simp: remove_emote_def resolve_emote_def owner_check_def is_owner_def Let_def)

lemma decay_over_returns:
  "\<forall>c \<in> set es. delete_custom_emoji env (guild c) (emote_id c) = None
                \<or> delete_custom_emoji env (guild c) (emote_id c) = Some NotFound \<Longrightarrow>
   fst (decay_over env es w) = Inr ()"
proof (induction es arbitrary: w)
  case Nil
  then show ?case by simp
next
  case (Cons e es)
  then show ?case by (simp add: decay_over_step_ok del: decay_over.simps)
qed










section \<open>Removal when the external emoji is gone\<close>

text \<open>
  C7, as the code has it. In \<^verbatim>\<open>emote_collector/extensions/db.py\<close>, when the emote is
  found, the user is authorized and the external delete raises \<open>discord.NotFound\<close>,
  \<open>remove_emote\<close> logs a warning, deletes the row of \<open>emotes\<close> and returns the emote. In
  \<^verbatim>\<open>cogs/db.py\<close>, \<open>remove_emote\<close> raises \<open>errors.DiscordError\<close> when the emoji is not in
  the client's cache, and lets \<open>discord.NotFound\<close> of the delete call through; in both
  cases the two tables stay as they were.
\<close>

theorem remove_emote_tolerates_missing:
  "(resolve_emote arg w = Inr e \<and> is_owner env e user
      \<and> delete_custom_emoji env (guild e) (emote_id e) = Some NotFound \<longrightarrow>
      remove_emote env arg user w =
        (Inr e, delete_emote_row env (emote_id e)
                  (emit (Log_warn (name e)) (emit (Http_delete (guild e) (emote_id e)) w)))
    \<and> Log_warn (name e) \<in> set (trace (snd (remove_emote env arg user w)))
    \<and> (\<forall>r \<in> set (emotes (snd (remove_emote env arg user w))). emote_id r \<noteq> emote_id e))
 \<and> (fetch_emote_by_name n w = Some e \<and> is_owner env e user
      \<and> bot_get_emoji env (emote_id e) = None \<longrightarrow>
      cogs_remove_emote env n user w = (Inl DiscordError, w))
 \<and> (fetch_emote_by_name n w = Some e \<and> is_owner env e user
      \<and> bot_get_emoji env (emote_id e) = Some g
      \<and> delete_custom_emoji env (Some g) (emote_id e) = Some NotFound \<longrightarrow>
      cogs_remove_emote env n user w =
        (Inl (Discord NotFound), emit (Http_delete (Some g) (emote_id e)) w))"
proof (intro conjI impI; (elim conjE)?)
  assume h: "resolve_emote arg w = Inr e" "is_owner env e user"
            "delete_custom_emoji env (guild e) (emote_id e) = Some NotFound"
  then show rm: "remove_emote env arg user w =
        (Inr e, delete_emote_row env (emote_id e)
                  (emit (Log_warn (name e)) (emit (Http_delete (guild e) (emote_id e)) w)))"
    by (simp add: remove_emote_def owner_check_def Let_def)
  show "Log_warn (name e) \<in> set (trace (snd (remove_emote env arg user w)))"
    by (simp add: rm trace_delete_emote_row emit_def)
  show "\<forall>r \<in> set (emotes (snd (remove_emote env arg user w))). emote_id r \<noteq> emote_id e"
    by (simp add: rm delete_emote_row_emotes)
next
  assume "fetch_emote_by_name n w = Some e" "is_owner env e user"
         "bot_get_emoji env (emote_id e) = None"
  then show "cogs_remove_emote env n user w = (Inl DiscordError, w)"
    by (auto simp: cogs_remove_emote_def cogs_get_emote_def cogs_owner_check_def
          cogs_is_owner_def is_owner_def split: option.splits)
next
  assume "fetch_emote_by_name n w = Some e" "is_owner env e user"
         "bot_get_emoji env (emote_id e) = Some g"
         "delete_custom_emoji env (Some g) (emote_id e) = Some NotFound"
  then show "cogs_remove_emote env n user w =
        (Inl (Discord NotFound), emit (Http_delete (Some g) (emote_id e)) w)"
    by (auto simp: cogs_remove_emote_def cogs_get_emote_def cogs_owner_check_def
          cogs_is_owner_def is_owner_def Let_def split: option.splits)
qed

text \<open>
  The external service no longer has emote 3. User 42 removes \<open>keep\<close> through
  \<^verbatim>\<open>emote_collector/extensions/db.py\<close>: a warning, and the row is gone. Through
  \<^verbatim>\<open>cogs/db.py\<close> the removal fails, whether the emoji is cached or not.
\<close>

theorem remove_emote_tolerates_missing_witness:
  "resolve_emote (Inl ''keep'') w0 = Inr keep \<and> is_owner env0 keep (Some 42)
   \<and> delete_custom_emoji env0 (guild keep) (emote_id keep) = Some NotFound
   \<and> fst (remove_emote env0 (Inl ''keep'') (Some 42) w0) = Inr keep
   \<and> trace (snd (remove_emote env0 (Inl ''keep'') (Some 42) w0))
       = [Http_delete (Some 11) 3, Log_warn ''keep'']
   \<and> emotes (snd (remove_emote env0 (Inl ''keep'') (Some 42) w0)) = [wave, Foo, fresh]
   \<and> fetch_emote_by_name ''keep'' w0 = Some keep \<and> bot_get_emoji env0 (emote_id keep) = None
   \<and> fst (cogs_remove_emote env0 ''keep'' (Some 42) w0) = Inl DiscordError
   \<and> bot_get_emoji env_cached (emote_id keep) = Some 11
   \<and> delete_custom_emoji env_cached (Some 11) (emote_id keep) = Some NotFound
   \<and> fst (cogs_remove_emote env_cached ''keep'' (Some 42) w0) = Inl (Discord NotFound)"
  using remove_emote_tolerates_missing [of "Inl ''keep''" w0 keep env0 "Some 42" "''keep''" 11]
        remove_emote_tolerates_missing
          [of "Inl ''keep''" w0 keep env_cached "Some 42" "''keep''" 11]
  by (simp add: eval_defs env_cached_def ex_defs)

text \<open>
  Through \<^verbatim>\<open>cogs/db.py\<close> the same removal fails: the cache has no emoji 3, so
  \<open>errors.DiscordError\<close> is raised; and with the emoji cached and the service
  answering \<open>NotFound\<close>, that exception reaches the caller. The row stays.
\<close>

theorem cogs_remove_emote_missing_counterexample:
  "fetch_emote_by_name ''keep'' w0 = Some keep \<and> bot_get_emoji env0 3 = None
   \<and> cogs_remove_emote env0 ''keep'' (Some 42) w0 = (Inl DiscordError, w0)
   \<and> fst (cogs_remove_emote env_cached ''keep'' (Some 42) w0) = Inl (Discord NotFound)
   \<and> emotes (snd (cogs_remove_emote env_cached ''keep'' (Some 42) w0)) = emotes w0"
  by (simp add: eval_defs env_cached_def ex_defs)

section \<open>A decay pass and a failing removal\<close>

text \<open>
  C8 does not hold for the code. \<open>remove_emote\<close> catches \<open>discord.NotFound\<close> only; every
  other exception of the external delete leaves it, and the handler of \<open>decay\<close> names
  \<open>errors.ConnoisseurError\<close> and \<open>errors.DiscordError\<close>, which a system-initiated
  removal never raises. Here the service refuses to delete \<open>wave\<close>, the first of the two
  candidates: \<open>decay\<close> ends with \<open>discord.Forbidden\<close>, with no error logged, the
  notification not retracted, and the second candidate \<open>Foo\<close> not looked at. \<open>decay\<close>
  of \<^verbatim>\<open>cogs/db.py\<close> raises \<open>TypeError\<close> before it sees a candidate.
\<close>

theorem decay_aborts_on_failed_delete:
  "decayable_emotes env0 100 w0 = [wave, Foo]
   \<and> delete_custom_emoji env0 (guild wave) (emote_id wave) = Some Forbidden
   \<and> delete_custom_emoji env0 (guild Foo) (emote_id Foo) = None
   \<and> fst (decay env0 100 w0) = Inl (Discord Forbidden)
   \<and> trace (snd (decay env0 100 w0))
       = [Log_debug ''wave'', Decay_notified 1, Http_delete (Some 10) 1]
   \<and> emotes (snd (decay env0 100 w0)) = emotes w0
   \<and> cogs_decay w0 = (Inl TypeError, w0)"
  by (simp add: eval_defs cogs_decay_def ex_defs)

section \<open>Preference resolution\<close>

text \<open>
  C9, as the code has it. \<open>get_state\<close> of \<^verbatim>\<open>emote_collector/extensions/db.py\<close> is false
  whenever the user has a blacklist reason, whatever the user's and the guild's
  settings; otherwise it is the user's state if set, else the guild's state if set,
  else true. \<open>get_state\<close> of \<^verbatim>\<open>cogs/db.py\<close> does not read the blacklist: it is the
  user's state if set, else the guild's state if set, else true.
\<close>

theorem get_state_resolution:
  "(get_user_blacklist uid w \<noteq> None \<longrightarrow> get_state gid uid w = False)
 \<and> (get_user_blacklist uid w = None \<longrightarrow>
      get_state gid uid w =
        (case get_user_state uid w of
           Some u \<Rightarrow> u
         | None \<Rightarrow> (case get_guild_state gid w of Some g \<Rightarrow> g | None \<Rightarrow> True)))
 \<and> cogs_get_state gid uid w =
        (case get_user_state uid w of
           Some u \<Rightarrow> u
         | None \<Rightarrow> (case get_guild_state gid w of Some g \<Rightarrow> g | None \<Rightarrow> True))"
  by (auto simp: get_state_def cogs_get_state_def split: option.splits)

theorem get_state_resolution_witness:
  "get_user_blacklist 7 w0 \<noteq> None \<and> get_state 5 7 w0 = False
   \<and> get_user_blacklist 42 w0 = None \<and> get_state 5 42 w0 = True
   \<and> get_state 5 8 w0 = False \<and> get_state 6 8 w0 = True"
  using get_state_resolution [of 7 w0 5] get_state_resolution [of 42 w0 5]
        get_state_resolution [of 8 w0 5] get_state_resolution [of 8 w0 6]
  by (simp add: get_user_blacklist_def get_user_state_def get_guild_state_def w0_def)

text \<open>
  In \<^verbatim>\<open>cogs/db.py\<close> the blacklisted user 7 resolves to true in a guild without a
  setting.
\<close>

theorem cogs_get_state_blacklisted_counterexample:
  "get_user_blacklist 7 w0 = Some ''spam'' \<and> cogs_get_state 6 7 w0 = True"
  by (simp add: cogs_get_state_def get_user_blacklist_def get_user_state_def
        get_guild_state_def w0_def)

section \<open>NSFW toggle\<close>

lemma find_nsfw_updated:
  "find (\<lambda>r. emote_id r = eid)
        (map (\<lambda>r. if emote_id r = eid then r\<lparr>nsfw := s\<rparr> else r) xs)
   = map_option (\<lambda>r. r\<lparr>nsfw := s\<rparr>) (find (\<lambda>r. emote_id r = eid) xs)"
  by (induction xs) auto

text \<open>A status that \<open>new_nsfw_status\<close> returns is written to the row and handed back.\<close>

lemma toggle_emote_nsfw_writes:
  assumes "new_nsfw_status e by_mod = Inr (Some s)" "e \<in> set (emotes w)"
  shows "\<exists>r w'. toggle_emote_nsfw e by_mod w = (Inr r, w') \<and> nsfw r = s
               \<and> emote_id r = emote_id e \<and> r \<in> set (emotes w')"
proof -
  from find_by_id_exists [OF assms(2)] obtain r0 where
    r0: "find (\<lambda>r. emote_id r = emote_id e) (emotes w) = Some r0" "emote_id r0 = emote_id e"
    by blast
  then have mem: "r0 \<in> set (emotes w)"
    by (auto simp: find_Some_iff)
  have "r0\<lparr>nsfw := s\<rparr>
          \<in> set (map (\<lambda>r. if emote_id r = emote_id e then r\<lparr>nsfw := s\<rparr> else r) (emotes w))"
    using mem r0(2) by (auto simp: image_iff intro!: bexI [of _ r0])
  with assms(1) r0 show ?thesis
    by (simp add: toggle_emote_nsfw_def find_nsfw_updated Let_def)
qed

text \<open>
  C10. For an emote whose status is \<open>MOD_NSFW\<close>, a toggle that is not by a moderator
  raises \<open>BadArgument\<close> and leaves the database as it was; the toggle by a moderator
  gives \<open>SFW\<close> and writes it to the emote's row, and any toggle that gives \<open>SFW\<close> for
  such an emote is by a moderator. A toggle of an \<open>SFW\<close> emote that is not by a
  moderator gives \<open>SELF_NSFW\<close> and writes that.
\<close>

theorem toggle_emote_nsfw_mod_only:
  "(nsfw e = ''MOD_NSFW'' \<longrightarrow>
      new_nsfw_status e False = Inl BadArgument
    \<and> toggle_emote_nsfw e False w = (Inl BadArgument, w)
    \<and> new_nsfw_status e True = Inr (Some ''SFW'')
    \<and> (\<forall>by_mod. new_nsfw_status e by_mod = Inr (Some ''SFW'') \<longrightarrow> by_mod)
    \<and> (e \<in> set (emotes w) \<longrightarrow>
         (\<exists>r w'. toggle_emote_nsfw e True w = (Inr r, w') \<and> nsfw r = ''SFW''
                \<and> emote_id r = emote_id e \<and> r \<in> set (emotes w'))))
 \<and> (nsfw e = ''SFW'' \<longrightarrow>
      new_nsfw_status e False = Inr (Some ''SELF_NSFW'')
    \<and> (e \<in> set (emotes w) \<longrightarrow>
         (\<exists>r w'. toggle_emote_nsfw e False w = (Inr r, w') \<and> nsfw r = ''SELF_NSFW''
                \<and> emote_id r = emote_id e \<and> r \<in> set (emotes w'))))"
proof -
  have mod: "new_nsfw_status e True = Inr (Some ''SFW'')" if "nsfw e = ''MOD_NSFW''"
    using that by (simp add: new_nsfw_status_def is_nsfw_def endswith_def)
  have self: "new_nsfw_status e False = Inr (Some ''SELF_NSFW'')" if "nsfw e = ''SFW''"
    using that by (simp add: new_nsfw_status_def is_nsfw_def endswith_def)
  have refuse: "new_nsfw_status e False = Inl BadArgument" if "nsfw e = ''MOD_NSFW''"
    using that by (simp add: new_nsfw_status_def is_nsfw_def endswith_def)
  have only: "\<forall>by_mod. new_nsfw_status e by_mod = Inr (Some ''SFW'') \<longrightarrow> by_mod"
    if "nsfw e = ''MOD_NSFW''"
    using refuse [OF that] by (auto intro: ccontr)
  from mod self refuse only toggle_emote_nsfw_writes [of e True "''SFW''" w]
       toggle_emote_nsfw_writes [of e False "''SELF_NSFW''" w]
  show ?thesis by (auto simp: toggle_emote_nsfw_def)
qed

text \<open>
  In \<open>w_mod\<close> a moderator has marked \<open>wave\<close>: its author cannot undo that, a moderator
  can. In \<open>w0\<close>, where \<open>wave\<close> is \<open>SFW\<close>, the toggle without \<open>by_mod\<close> gives \<open>SELF_NSFW\<close>.
\<close>

theorem toggle_emote_nsfw_mod_only_witness:
  "nsfw (wave\<lparr>nsfw := ''MOD_NSFW''\<rparr>) = ''MOD_NSFW''
   \<and> wave\<lparr>nsfw := ''MOD_NSFW''\<rparr> \<in> set (emotes w_mod)
   \<and> toggle_emote_nsfw (wave\<lparr>nsfw := ''MOD_NSFW''\<rparr>) False w_mod = (Inl BadArgument, w_mod)
   \<and> fst (toggle_emote_nsfw (wave\<lparr>nsfw := ''MOD_NSFW''\<rparr>) True w_mod)
       = Inr (wave\<lparr>nsfw := ''SFW''\<rparr>)
   \<and> nsfw wave = ''SFW'' \<and> wave \<in> set (emotes w0)
   \<and> fst (toggle_emote_nsfw wave False w0) = Inr (wave\<lparr>nsfw := ''SELF_NSFW''\<rparr>)"
  using toggle_emote_nsfw_mod_only [of "wave\<lparr>nsfw := ''MOD_NSFW''\<rparr>" w_mod]
        toggle_emote_nsfw_mod_only [of wave w0]
  by (simp add: toggle_emote_nsfw_def new_nsfw_status_def is_nsfw_def endswith_def
        w_mod_def ex_defs)

end
